theory Spec2Isabelle
  imports Complex_Main
begin

section \<open>Data model of the data profile analyzer\<close>

text \<open>
  Cells of a pandas column. \<open>NaN\<close> is the floating point missing marker, \<open>NoneV\<close> is
  Python's \<open>None\<close> (which pandas also counts as a missing value in an object column),
  \<open>PosInf\<close> and \<open>NegInf\<close> are the two infinities, \<open>Num\<close> a finite number (arithmetic is
  exact: binary rounding of IEEE doubles is not modelled), \<open>Str\<close> a text value and
  \<open>Stamp\<close> a point in time.
\<close>

datatype cell = NaN | NoneV | PosInf | NegInf | Num real | Str string | Stamp int

datatype error = KeyError string | TypeError | IndexError

text \<open>
  A Python \<open>dict\<close>: an insertion-ordered association list. \<open>dict_set\<close> is
  \<open>d[k] = v\<close>: an existing key keeps its position, a new key goes to the end.
  \<open>dict_get\<close> is \<open>d[k]\<close>, \<open>dict_update\<close> is \<open>d.update(e)\<close>.
\<close>

type_synonym ('k, 'v) dict = "('k \<times> 'v) list"

fun dict_set :: "'k \<Rightarrow> 'v \<Rightarrow> ('k, 'v) dict \<Rightarrow> ('k, 'v) dict" where
  "dict_set k v [] = [(k, v)]"
| "dict_set k v (p # ps) = (if fst p = k then (k, v) # ps else p # dict_set k v ps)"

definition dict_keys :: "('k, 'v) dict \<Rightarrow> 'k list" where
  "dict_keys d = map fst d"

definition dict_get :: "(string, 'v) dict \<Rightarrow> string \<Rightarrow> error + 'v" where
  "dict_get d k = (case map_of d k of None \<Rightarrow> Inl (KeyError k) | Some v \<Rightarrow> Inr v)"

fun dict_update :: "('k, 'v) dict \<Rightarrow> ('k, 'v) dict \<Rightarrow> ('k, 'v) dict" where
  "dict_update d [] = d"
| "dict_update d ((k, v) # e) = dict_update (dict_set k v d) e"

record FeaturesProfileStats =
  feature_type :: string
  count :: nat
  infinite_count :: "nat option"
  infinite_fraction :: "real option"
  missing_count :: "nat option"
  missing_fraction :: "real option"
  unique :: "nat option"
  unique_fraction :: "real option"
  percentile_25 :: "cell option"
  percentile_50 :: "cell option"
  percentile_75 :: "cell option"
  max_val :: "cell option"
  min_val :: "cell option"
  mean :: "cell option"
  most_common_value :: "cell option"
  most_common_value_fraction :: "real option"
  std :: "cell option"
  most_common_not_null_value :: "cell option"
  most_common_not_null_value_fraction :: "real option"
  new_in_current_values_count :: "int option"
  unused_in_current_values_count :: "int option"

record DataProfileStats =
  num_features_stats :: "(string, FeaturesProfileStats) dict option"
  cat_features_stats :: "(string, FeaturesProfileStats) dict option"
  datetime_features_stats :: "(string, FeaturesProfileStats) dict option"
  target_stats :: "(string, FeaturesProfileStats) dict option"

text \<open>The four buckets in the order both loops of \<open>DataProfileStats\<close> visit them.\<close>

definition buckets :: "DataProfileStats \<Rightarrow> (string, FeaturesProfileStats) dict option list" where
  "buckets s = [target_stats s, datetime_features_stats s, cat_features_stats s, num_features_stats s]"

fun update_all :: "(string, FeaturesProfileStats) dict
    \<Rightarrow> (string, FeaturesProfileStats) dict option list \<Rightarrow> (string, FeaturesProfileStats) dict" where
  "update_all result [] = result"
| "update_all result (None # fs) = update_all result fs"
| "update_all result (Some features # fs) = update_all (dict_update result features) fs"

definition get_all_features :: "DataProfileStats \<Rightarrow> (string, FeaturesProfileStats) dict" where
  "get_all_features s = update_all [] (buckets s)"

fun first_with :: "string \<Rightarrow> (string, FeaturesProfileStats) dict option list
    \<Rightarrow> error + FeaturesProfileStats" where
  "first_with item [] = Inl (KeyError item)"
| "first_with item (None # fs) = first_with item fs"
| "first_with item (Some features # fs) =
     (case map_of features item of Some r \<Rightarrow> Inr r | None \<Rightarrow> first_with item fs)"

definition getitem :: "DataProfileStats \<Rightarrow> string \<Rightarrow> error + FeaturesProfileStats" where
  "getitem s item = first_with item (buckets s)"

text \<open>Membership of a name in an optional bucket, and the record found there.\<close>

definition bucket_lookup :: "(string, FeaturesProfileStats) dict option \<Rightarrow> string
    \<Rightarrow> FeaturesProfileStats option" where
  "bucket_lookup b k = (case b of None \<Rightarrow> None | Some d \<Rightarrow> map_of d k)"

definition bucket_ok :: "(string, FeaturesProfileStats) dict option \<Rightarrow> bool" where
  "bucket_ok b = (case b of None \<Rightarrow> True | Some d \<Rightarrow> distinct (map fst d))"

text \<open>\<open>FeaturesProfileStats(feature_type=ft)\<close>: every other field at its default.\<close>

definition new_stats :: "string \<Rightarrow> FeaturesProfileStats" where
  "new_stats ft = \<lparr> feature_type = ft, count = 0, infinite_count = None, infinite_fraction = None,
     missing_count = None, missing_fraction = None, unique = None, unique_fraction = None,
     percentile_25 = None, percentile_50 = None, percentile_75 = None, max_val = None,
     min_val = None, mean = None, most_common_value = None, most_common_value_fraction = None,
     std = None, most_common_not_null_value = None, most_common_not_null_value_fraction = None,
     new_in_current_values_count = None, unused_in_current_values_count = None \<rparr>"


section \<open>The pandas and numpy operations the analyzer calls\<close>

text \<open>
  \<open>pd.isnull\<close>, \<open>np.isinf\<close> and \<open>np.isnan\<close> on one cell. A column that \<open>np.isinf\<close>
  accepts holds floating point cells only.
\<close>

definition isnull :: "cell \<Rightarrow> bool" where
  "isnull c = (c = NaN \<or> c = NoneV)"

definition isinf :: "cell \<Rightarrow> bool" where
  "isinf c = (c = PosInf \<or> c = NegInf)"

definition isnan :: "cell \<Rightarrow> bool" where
  "isnan c = (c = NaN)"

fun is_float :: "cell \<Rightarrow> bool" where
  "is_float NaN = True"
| "is_float PosInf = True"
| "is_float NegInf = True"
| "is_float (Num a) = True"
| "is_float c = False"

definition notnull_values :: "cell list \<Rightarrow> cell list" where
  "notnull_values feature = filter (\<lambda>c. \<not> isnull c) feature"

definition hasnans :: "cell list \<Rightarrow> bool" where
  "hasnans feature = list_ex isnull feature"

text \<open>\<open>Series.unique()\<close>: the distinct cells in order of first appearance.\<close>

fun unique_values :: "cell list \<Rightarrow> cell list" where
  "unique_values [] = []"
| "unique_values (x # xs) = x # unique_values (filter (\<lambda>y. y \<noteq> x) xs)"

definition nunique :: "cell list \<Rightarrow> nat" where
  "nunique feature = length (unique_values (notnull_values feature))"

text \<open>
  \<open>Series.value_counts(dropna=False)\<close>: every distinct cell, the missing markers
  included, with its number of occurrences, by descending count; cells with the same count
  stay in order of first appearance (the sort is stable).
\<close>

definition value_counts :: "cell list \<Rightarrow> (cell \<times> nat) list" where
  "value_counts feature =
     sort_key (\<lambda>p. - int (snd p)) (map (\<lambda>k. (k, count_list feature k)) (unique_values feature))"

text \<open>Positional access \<open>index[i]\<close> and \<open>iloc[i]\<close>: out of range raises \<open>IndexError\<close>.\<close>

definition iloc :: "'a list \<Rightarrow> nat \<Rightarrow> error + 'a" where
  "iloc xs i = (if i < length xs then Inr (xs ! i) else Inl IndexError)"

text \<open>
  \<open>np.round(x, 2)\<close>: \<open>x * 100\<close> rounded to the nearest integer, a tie going to the even
  one, divided by 100. Infinities and NaN pass through.
\<close>

definition rint :: "real \<Rightarrow> int" where
  "rint x = (let f = \<lfloor>x\<rfloor>; d = x - of_int f in
     if d < 1 / 2 then f else if 1 / 2 < d then f + 1 else if even f then f else f + 1)"

definition np_round :: "real \<Rightarrow> real" where
  "np_round x = of_int (rint (x * 100)) / 100"

fun np_round_cell :: "cell \<Rightarrow> cell" where
  "np_round_cell (Num a) = Num (np_round a)"
| "np_round_cell c = c"

text \<open>
  Floating point arithmetic on cells, as far as \<open>describe()\<close> needs it: exact on finite
  numbers, IEEE rules for the infinities, NaN for everything undefined.
\<close>

fun fadd :: "cell \<Rightarrow> cell \<Rightarrow> cell" where
  "fadd (Num a) (Num b) = Num (a + b)"
| "fadd (Num a) PosInf = PosInf"
| "fadd (Num a) NegInf = NegInf"
| "fadd PosInf (Num b) = PosInf"
| "fadd NegInf (Num b) = NegInf"
| "fadd PosInf PosInf = PosInf"
| "fadd NegInf NegInf = NegInf"
| "fadd a b = NaN"

fun fneg :: "cell \<Rightarrow> cell" where
  "fneg (Num a) = Num (- a)"
| "fneg PosInf = NegInf"
| "fneg NegInf = PosInf"
| "fneg c = NaN"

definition fsub :: "cell \<Rightarrow> cell \<Rightarrow> cell" where
  "fsub a b = fadd a (fneg b)"

fun fscale :: "real \<Rightarrow> cell \<Rightarrow> cell" where
  "fscale w (Num a) = Num (w * a)"
| "fscale w PosInf = (if w = 0 then NaN else if 0 < w then PosInf else NegInf)"
| "fscale w NegInf = (if w = 0 then NaN else if 0 < w then NegInf else PosInf)"
| "fscale w c = NaN"

fun fsquare :: "cell \<Rightarrow> cell" where
  "fsquare (Num a) = Num (a * a)"
| "fsquare PosInf = PosInf"
| "fsquare NegInf = PosInf"
| "fsquare c = NaN"

fun fsqrt :: "cell \<Rightarrow> cell" where
  "fsqrt (Num a) = (if a < 0 then NaN else Num (sqrt a))"
| "fsqrt PosInf = PosInf"
| "fsqrt c = NaN"

definition fsum :: "cell list \<Rightarrow> cell" where
  "fsum vs = foldl fadd (Num 0) vs"

text \<open>
  Comparison of two cells, as Python's \<open><=\<close>: numbers with numbers, time stamps with
  time stamps, texts with texts (by character code); any other pair raises \<open>TypeError\<close>
  (\<open>None\<close> here).
\<close>

fun float_key :: "cell \<Rightarrow> (int \<times> real) option" where
  "float_key NegInf = Some (- 1, 0)"
| "float_key (Num a) = Some (0, a)"
| "float_key PosInf = Some (1, 0)"
| "float_key c = None"

fun str_le :: "string \<Rightarrow> string \<Rightarrow> bool" where
  "str_le [] t = True"
| "str_le (a # s) [] = False"
| "str_le (a # s) (b # t) =
     ((of_char a :: nat) < of_char b \<or> ((of_char a :: nat) = of_char b \<and> str_le s t))"

fun cell_le :: "cell \<Rightarrow> cell \<Rightarrow> bool option" where
  "cell_le (Stamp s) (Stamp t) = Some (s \<le> t)"
| "cell_le (Str s) (Str t) = Some (str_le s t)"
| "cell_le a b = (case (float_key a, float_key b) of
       (Some (i, x), Some (j, y)) \<Rightarrow> Some (i < j \<or> (i = j \<and> x \<le> y))
     | _ \<Rightarrow> None)"

text \<open>\<open>Series.max()\<close> and \<open>Series.min()\<close>: missing values are skipped.\<close>

fun max_from :: "cell \<Rightarrow> cell list \<Rightarrow> error + cell" where
  "max_from m [] = Inr m"
| "max_from m (x # xs) =
     (case cell_le m x of None \<Rightarrow> Inl TypeError | Some b \<Rightarrow> max_from (if b then x else m) xs)"

fun min_from :: "cell \<Rightarrow> cell list \<Rightarrow> error + cell" where
  "min_from m [] = Inr m"
| "min_from m (x # xs) =
     (case cell_le x m of None \<Rightarrow> Inl TypeError | Some b \<Rightarrow> min_from (if b then x else m) xs)"

definition series_max :: "cell list \<Rightarrow> error + cell" where
  "series_max feature = (case notnull_values feature of [] \<Rightarrow> Inr NaN | v # vs \<Rightarrow> max_from v vs)"

definition series_min :: "cell list \<Rightarrow> error + cell" where
  "series_min feature = (case notnull_values feature of [] \<Rightarrow> Inr NaN | v # vs \<Rightarrow> min_from v vs)"

text \<open>
  The entries of \<open>describe()\<close> that the analyzer reads. \<open>count\<close> is the number of
  non-missing values; for a floating point column \<open>mean\<close> is their sum over their number,
  \<open>std\<close> the square root of the sum of squared deviations over \<open>count - 1\<close> (NaN when
  that is zero), and a percentile the linear interpolation between the two neighbours of
  position \<open>q * (count - 1)\<close> in the sorted values.
\<close>

definition describe_count :: "cell list \<Rightarrow> nat" where
  "describe_count feature = length (notnull_values feature)"

definition describe_mean :: "cell list \<Rightarrow> cell" where
  "describe_mean feature = (let vs = notnull_values feature in
     if vs = [] then NaN else fscale (1 / real (length vs)) (fsum vs))"

definition describe_std :: "cell list \<Rightarrow> cell" where
  "describe_std feature = (let vs = notnull_values feature; avg = describe_mean feature in
     if length vs < 2 then NaN
     else fsqrt (fscale (1 / real (length vs - 1)) (fsum (map (\<lambda>v. fsquare (fsub avg v)) vs))))"

fun float_insert :: "cell \<Rightarrow> cell list \<Rightarrow> cell list" where
  "float_insert v [] = [v]"
| "float_insert v (w # ws) =
     (if cell_le v w = Some True then v # w # ws else w # float_insert v ws)"

definition float_sort :: "cell list \<Rightarrow> cell list" where
  "float_sort vs = foldr float_insert vs []"

definition describe_percentile :: "real \<Rightarrow> cell list \<Rightarrow> cell" where
  "describe_percentile q feature = (let vs = float_sort (notnull_values feature) in
     if vs = [] then NaN
     else let h = q * real (length vs - 1); i = nat \<lfloor>h\<rfloor>; g = h - real i;
              j = min (i + 1) (length vs - 1)
          in fadd (fscale (1 - g) (vs ! i)) (fscale g (vs ! j)))"

section \<open>The statistics of one column\<close>

text \<open>
  \<open>_get_features_stats\<close>. Its first argument stands for Python's \<open>str\<close> on a cell, which
  the datetime branches call. The blocks of the source are kept as separate steps:
  the infinite counts (numeric columns only), the most common values, the numeric
  statistics and the datetime extrema.
\<close>

definition set_infinite :: "cell list \<Rightarrow> string \<Rightarrow> FeaturesProfileStats \<Rightarrow> error + FeaturesProfileStats" where
  "set_infinite feature ft result =
     (if ft = ''num'' then
        if list_all is_float feature then
          let result = result\<lparr>infinite_count := Some (length (filter isinf feature))\<rparr>
          in Inr (result\<lparr>infinite_fraction :=
               Some (np_round (real (the (infinite_count result)) / real (length feature)))\<rparr>)
        else Inl TypeError
      else Inr result)"

definition set_most_common :: "(cell \<Rightarrow> string) \<Rightarrow> cell list \<Rightarrow> string \<Rightarrow> FeaturesProfileStats
    \<Rightarrow> error + FeaturesProfileStats" where
  "set_most_common to_str feature ft result =
     (case iloc (value_counts feature) 0 of Inl e \<Rightarrow> Inl e | Inr head \<Rightarrow>
      let result = result\<lparr>most_common_value := Some (fst head)\<rparr>;
          result = (if ft = ''datetime''
                    then result\<lparr>most_common_value := Some (Str (to_str (the (most_common_value result))))\<rparr>
                    else result);
          result = result\<lparr>most_common_value_fraction :=
                      Some (np_round (real (snd head) / real (length feature)))\<rparr>;
          result = result\<lparr>unique := Some (nunique feature)\<rparr>;
          result = result\<lparr>unique_fraction :=
                      Some (np_round (real (the (unique result)) / real (length feature)))\<rparr>
      in if isnull (the (most_common_value result)) then
           (case iloc (value_counts feature) 1 of Inl e \<Rightarrow> Inl e | Inr second \<Rightarrow>
              Inr (result\<lparr>most_common_not_null_value := Some (fst second),
                          most_common_not_null_value_fraction :=
                            Some (np_round (real (snd second) / real (length feature)))\<rparr>))
         else Inr result)"

definition set_numeric :: "cell list \<Rightarrow> string \<Rightarrow> FeaturesProfileStats \<Rightarrow> error + FeaturesProfileStats" where
  "set_numeric feature ft result =
     (if ft = ''num'' then
        (case series_max feature of Inl e \<Rightarrow> Inl e | Inr mx \<Rightarrow>
         case series_min feature of Inl e \<Rightarrow> Inl e | Inr mn \<Rightarrow>
         let result = result\<lparr>max_val := Some mx, min_val := Some mn\<rparr>;
             std = describe_std feature;
             result = (if isnan std then result\<lparr>std := None\<rparr>
                       else result\<lparr>std := Some (np_round_cell std)\<rparr>)
         in Inr (result\<lparr>mean := Some (np_round_cell (describe_mean feature)),
                       percentile_25 := Some (np_round_cell (describe_percentile (1 / 4) feature)),
                       percentile_50 := Some (np_round_cell (describe_percentile (1 / 2) feature)),
                       percentile_75 := Some (np_round_cell (describe_percentile (3 / 4) feature))\<rparr>))
      else Inr result)"

definition set_datetime :: "(cell \<Rightarrow> string) \<Rightarrow> cell list \<Rightarrow> string \<Rightarrow> FeaturesProfileStats
    \<Rightarrow> error + FeaturesProfileStats" where
  "set_datetime to_str feature ft result =
     (if ft = ''datetime'' then
        (case series_max feature of Inl e \<Rightarrow> Inl e | Inr mx \<Rightarrow>
         case series_min feature of Inl e \<Rightarrow> Inl e | Inr mn \<Rightarrow>
           Inr (result\<lparr>max_val := Some (Str (to_str mx)), min_val := Some (Str (to_str mn))\<rparr>))
      else Inr result)"

definition get_features_stats :: "(cell \<Rightarrow> string) \<Rightarrow> cell list \<Rightarrow> string
    \<Rightarrow> error + FeaturesProfileStats" where
  "get_features_stats to_str feature ft =
     (let result = new_stats ft; all_values_count = length feature in
      if \<not> 0 < all_values_count then Inr result
      else
        let result = result\<lparr>missing_count := Some (length (filter isnull feature))\<rparr>;
            result = result\<lparr>count := describe_count feature\<rparr>
        in case set_infinite feature ft result of Inl e \<Rightarrow> Inl e | Inr result \<Rightarrow>
           let result = result\<lparr>missing_fraction :=
                 Some (np_round (real (the (missing_count result)) / real all_values_count))\<rparr>
           in if 0 < count result then
                (case set_most_common to_str feature ft result of Inl e \<Rightarrow> Inl e | Inr result \<Rightarrow>
                 case set_numeric feature ft result of Inl e \<Rightarrow> Inl e | Inr result \<Rightarrow>
                   set_datetime to_str feature ft result)
              else Inr result)"




text \<open>A stand-in for Python's \<open>str\<close> in the worked columns.\<close>

definition plain_text :: "cell \<Rightarrow> string" where
  "plain_text c = (case c of Str s \<Rightarrow> s | NaN \<Rightarrow> ''NaT'' | _ \<Rightarrow> ''2021-01-01 00:00:00'')"



section \<open>The analyzer\<close>

text \<open>
  A data frame maps column names to columns. \<open>DatasetColumns\<close> is the result of
  \<open>process_columns\<close>, which is not part of this module: \<open>calculate\<close> below takes it, and
  the task of the column mapping, as arguments. Only the fields that the analyzer reads
  are kept.
\<close>

type_synonym dataframe = "(string, cell list) dict"

record DatasetUtilityColumns =
  date :: "string option"
  target :: "string option"

record DatasetColumns =
  utility_columns :: DatasetUtilityColumns
  num_feature_names :: "string list"
  cat_feature_names :: "string list"
  datetime_feature_names :: "string list"

record DataProfileAnalyzerResults =
  columns :: DatasetColumns
  reference_features_stats :: DataProfileStats
  current_features_stats :: "DataProfileStats option"

text \<open>
  The dictionary comprehensions of \<open>_calculate_stats\<close>: one record per name, in order;
  a name that is not a column of the data frame raises \<open>KeyError\<close>.
\<close>

fun stats_of_names :: "(cell \<Rightarrow> string) \<Rightarrow> dataframe \<Rightarrow> string \<Rightarrow> string list
    \<Rightarrow> (string, FeaturesProfileStats) dict \<Rightarrow> error + (string, FeaturesProfileStats) dict" where
  "stats_of_names to_str dataset ft [] acc = Inr acc"
| "stats_of_names to_str dataset ft (feature_name # names) acc =
     (case dict_get dataset feature_name of Inl e \<Rightarrow> Inl e | Inr feature \<Rightarrow>
      case get_features_stats to_str feature ft of Inl e \<Rightarrow> Inl e | Inr st \<Rightarrow>
        stats_of_names to_str dataset ft names (dict_set feature_name st acc))"

text \<open>Python's truth value of an optional text: \<open>None\<close> and the empty text are false.\<close>

definition truthy :: "string option \<Rightarrow> bool" where
  "truthy s = (case s of None \<Rightarrow> False | Some t \<Rightarrow> t \<noteq> [])"

definition calculate_stats :: "(cell \<Rightarrow> string) \<Rightarrow> dataframe \<Rightarrow> DatasetColumns \<Rightarrow> string option
    \<Rightarrow> error + DataProfileStats" where
  "calculate_stats to_str dataset cols task =
     (let result = \<lparr> num_features_stats = None, cat_features_stats = None,
                      datetime_features_stats = None, target_stats = None \<rparr>
      in case stats_of_names to_str dataset ''num'' (num_feature_names cols) [] of
           Inl e \<Rightarrow> Inl e | Inr nums \<Rightarrow>
         let result = result\<lparr>num_features_stats := Some nums\<rparr>
         in case stats_of_names to_str dataset ''cat'' (cat_feature_names cols) [] of
           Inl e \<Rightarrow> Inl e | Inr cats \<Rightarrow>
         let result = result\<lparr>cat_features_stats := Some cats\<rparr>;
             date_list = (if truthy (date (utility_columns cols))
                          then datetime_feature_names cols @ [the (date (utility_columns cols))]
                          else datetime_feature_names cols)
         in case stats_of_names to_str dataset ''datetime'' date_list [] of
           Inl e \<Rightarrow> Inl e | Inr dates \<Rightarrow>
         let result = result\<lparr>datetime_features_stats := Some dates\<rparr>
         in case target (utility_columns cols) of
              None \<Rightarrow> Inr result
            | Some target_name \<Rightarrow>
                (case map_of dataset target_name of
                   None \<Rightarrow> Inr result
                 | Some feature \<Rightarrow>
                     (case get_features_stats to_str feature
                             (if task = Some ''classification'' then ''cat'' else ''num'') of
                        Inl e \<Rightarrow> Inl e
                      | Inr st \<Rightarrow> Inr (result\<lparr>target_stats := Some (dict_set target_name st [])\<rparr>))))"

text \<open>
  Python sets of cells. \<open>set(series.unique())\<close> holds the distinct cells of the column.
  Membership follows Python's equality of values: a NaN is unequal to every cell, itself
  included, so the NaN of one set is never found in another set (the two NaN are taken to
  be two objects, as they are when the sets are built from two floating point arrays);
  \<open>None\<close> is equal to itself. \<open>set_difference a b\<close> is \<open>a - b\<close>.
\<close>

definition py_contains :: "cell list \<Rightarrow> cell \<Rightarrow> bool" where
  "py_contains s x = (x \<noteq> NaN \<and> x \<in> set s)"

definition set_difference :: "cell list \<Rightarrow> cell list \<Rightarrow> cell list" where
  "set_difference a b = filter (\<lambda>x. \<not> py_contains b x) a"

text \<open>
  The loop of \<open>calculate\<close> over the names of the reference categorical bucket: the two
  differences, the correction when both columns have missing values, and the write to the
  record of the bucket. \<open>both_have_nans\<close> is the condition
  \<open>current_data[name].hasnans and reference_data[name].hasnans\<close>, which reads the
  reference column only when the current column has missing values.
\<close>

definition both_have_nans :: "dataframe \<Rightarrow> dataframe \<Rightarrow> string \<Rightarrow> error + bool" where
  "both_have_nans reference_data current_data feature_name =
     (case dict_get current_data feature_name of Inl e \<Rightarrow> Inl e | Inr cur \<Rightarrow>
      if hasnans cur then
        (case dict_get reference_data feature_name of Inl e \<Rightarrow> Inl e | Inr ref \<Rightarrow> Inr (hasnans ref))
      else Inr False)"

fun annotate_drift :: "dataframe \<Rightarrow> dataframe \<Rightarrow> string list
    \<Rightarrow> (string, FeaturesProfileStats) dict \<Rightarrow> error + (string, FeaturesProfileStats) dict" where
  "annotate_drift reference_data current_data [] cats = Inr cats"
| "annotate_drift reference_data current_data (feature_name # names) cats =
     (case dict_get cats feature_name of Inl e \<Rightarrow> Inl e | Inr cat_feature_stats \<Rightarrow>
      case dict_get current_data feature_name of Inl e \<Rightarrow> Inl e | Inr cur \<Rightarrow>
      let current_values_set = unique_values cur;
          reference_values_set = (case map_of reference_data feature_name of
                                    Some ref \<Rightarrow> unique_values ref | None \<Rightarrow> []);
          new_count = int (length (set_difference current_values_set reference_values_set));
          unused_count = int (length (set_difference reference_values_set current_values_set))
      in case both_have_nans reference_data current_data feature_name of
           Inl e \<Rightarrow> Inl e
         | Inr both \<Rightarrow>
             let new_count = (if both then new_count - 1 else new_count);
                 unused_count = (if both then unused_count - 1 else unused_count)
             in annotate_drift reference_data current_data names
                  (dict_set feature_name
                     (cat_feature_stats\<lparr>new_in_current_values_count := Some new_count,
                                        unused_in_current_values_count := Some unused_count\<rparr>)
                     cats))"

definition calculate :: "(cell \<Rightarrow> string) \<Rightarrow> dataframe \<Rightarrow> dataframe option \<Rightarrow> DatasetColumns
    \<Rightarrow> string option \<Rightarrow> error + DataProfileAnalyzerResults" where
  "calculate to_str reference_data current_data cols task =
     (case calculate_stats to_str reference_data cols task of
        Inl e \<Rightarrow> Inl e
      | Inr reference_stats \<Rightarrow>
          (case current_data of
             None \<Rightarrow> Inr \<lparr> columns = cols, reference_features_stats = reference_stats,
                            current_features_stats = None \<rparr>
           | Some current \<Rightarrow>
               (case calculate_stats to_str current cols task of
                  Inl e \<Rightarrow> Inl e
                | Inr current_stats \<Rightarrow>
                    (case cat_features_stats reference_stats of
                       None \<Rightarrow> Inr \<lparr> columns = cols, reference_features_stats = reference_stats,
                                      current_features_stats = Some current_stats \<rparr>
                     | Some cats \<Rightarrow>
                         (case annotate_drift reference_data current (dict_keys cats) cats of
                            Inl e \<Rightarrow> Inl e
                          | Inr cats' \<Rightarrow>
                              Inr \<lparr> columns = cols,
                                    reference_features_stats =
                                      reference_stats\<lparr>cat_features_stats := Some cats'\<rparr>,
                                    current_features_stats = Some current_stats \<rparr>)))))"


text \<open>The column roles of the worked data frames: one categorical feature \<open>f\<close>.\<close>

definition one_cat_feature :: DatasetColumns where
  "one_cat_feature = \<lparr> utility_columns = \<lparr> date = None, target = None \<rparr>,
     num_feature_names = [], cat_feature_names = [''f''], datetime_feature_names = [] \<rparr>"
section \<open>Lookup and flattening\<close>

lemma map_of_dict_set: "map_of (dict_set k v d) = (map_of d)(k \<mapsto> v)"
  by (induction d) (auto simp: fun_eq_iff)

lemma map_of_dict_update:
  "distinct (map fst e) \<Longrightarrow> map_of (dict_update d e) = map_of d ++ map_of e"
proof (induction e arbitrary: d)
  case Nil
  then show ?case by simp
next
  case (Cons p e)
  obtain k v where p: "p = (k, v)" by (cases p)
  from Cons.prems p have k: "k \<notin> fst ` set e" and de: "distinct (map fst e)" by auto
  from k have ek: "map_of e k = None" by (simp add: map_of_eq_None_iff)
  have "map_of (dict_update d (p # e)) = (map_of d)(k \<mapsto> v) ++ map_of e"
    unfolding p dict_update.simps Cons.IH [OF de] map_of_dict_set ..
  also have "\<dots> = map_of d ++ map_of (p # e)"
  proof
    fix x
    show "((map_of d)(k \<mapsto> v) ++ map_of e) x = (map_of d ++ map_of (p # e)) x"
      using ek p by (cases "x = k") (simp_all add: map_add_def split: option.split)
  qed
  finally show ?case .
qed

lemma first_with_Cons:
  "first_with k (b # bs) = (case bucket_lookup b k of Some r \<Rightarrow> Inr r | None \<Rightarrow> first_with k bs)"
  by (cases b) (simp_all add: bucket_lookup_def)

lemma update_all_Cons:
  "bucket_ok b \<Longrightarrow> map_of (update_all d (b # bs)) k =
     map_of (update_all (case b of None \<Rightarrow> d | Some e \<Rightarrow> dict_update d e) bs) k"
  by (cases b) simp_all

lemma map_of_update_all:
  "list_all bucket_ok bs \<Longrightarrow> map_of (update_all d bs) k =
     (case map_of (update_all [] bs) k of Some r \<Rightarrow> Some r | None \<Rightarrow> map_of d k)"
proof (induction bs arbitrary: d)
  case Nil
  then show ?case by simp
next
  case (Cons b bs)
  then have ok: "list_all bucket_ok bs" and b: "bucket_ok b" by simp_all
  show ?case
  proof (cases b)
    case None
    then show ?thesis using Cons.IH [OF ok, of d] by simp
  next
    case (Some e)
    with b have de: "distinct (map fst e)" by (simp add: bucket_ok_def)
    show ?thesis
      using Cons.IH [OF ok, of "dict_update d e"] Cons.IH [OF ok, of "dict_update [] e"] Some
      by (simp add: map_of_dict_update [OF de] map_add_def split: option.split)
  qed
qed

lemma map_of_update_all_Cons:
  assumes "bucket_ok b" "list_all bucket_ok bs"
  shows "map_of (update_all [] (b # bs)) k =
     (case map_of (update_all [] bs) k of Some r \<Rightarrow> Some r | None \<Rightarrow> bucket_lookup b k)"
proof (cases b)
  case None
  then show ?thesis by (simp add: bucket_lookup_def split: option.split)
next
  case (Some e)
  with assms have de: "distinct (map fst e)" by (simp add: bucket_ok_def)
  show ?thesis using Some map_of_update_all [OF assms(2), of "dict_update [] e" k]
    by (simp add: map_of_dict_update [OF de] bucket_lookup_def split: option.split)
qed

lemma get_all_features_lookup:
  assumes "bucket_ok (target_stats s)" "bucket_ok (datetime_features_stats s)"
    "bucket_ok (cat_features_stats s)" "bucket_ok (num_features_stats s)"
  shows "map_of (get_all_features s) item =
     (case bucket_lookup (num_features_stats s) item of Some r \<Rightarrow> Some r | None \<Rightarrow>
      (case bucket_lookup (cat_features_stats s) item of Some r \<Rightarrow> Some r | None \<Rightarrow>
       (case bucket_lookup (datetime_features_stats s) item of Some r \<Rightarrow> Some r | None \<Rightarrow>
         bucket_lookup (target_stats s) item)))"
  using assms
  by (simp add: get_all_features_def buckets_def map_of_update_all_Cons split: option.split)


section \<open>Rounding to two decimals\<close>







section \<open>The steps of the statistics of one column\<close>

lemma set_infinite_Inr:
  assumes "set_infinite feature ft r = Inr r'"
  shows "r' = (if ft = ''num''
               then r\<lparr>infinite_count := Some (length (filter isinf feature)),
                       infinite_fraction :=
                         Some (np_round (real (length (filter isinf feature)) / real (length feature)))\<rparr>
               else r)"
    and "ft = ''num'' \<Longrightarrow> list_all is_float feature"
  using assms by (auto simp: set_infinite_def Let_def split: if_splits)

lemma set_most_common_Inr:
  assumes "set_most_common to_str feature ft r = Inr r'"
  shows "value_counts feature \<noteq> []"
    and "most_common_value r' =
           Some (if ft = ''datetime'' then Str (to_str (fst (value_counts feature ! 0)))
                 else fst (value_counts feature ! 0))"
    and "most_common_value_fraction r' =
           Some (np_round (real (snd (value_counts feature ! 0)) / real (length feature)))"
    and "unique r' = Some (nunique feature)"
    and "unique_fraction r' = Some (np_round (real (nunique feature) / real (length feature)))"
    and "count r' = count r" and "missing_count r' = missing_count r"
    and "missing_fraction r' = missing_fraction r"
    and "infinite_count r' = infinite_count r" and "infinite_fraction r' = infinite_fraction r"
    and "feature_type r' = feature_type r"
    and "new_in_current_values_count r' = new_in_current_values_count r"
    and "unused_in_current_values_count r' = unused_in_current_values_count r"
    and "max_val r' = max_val r" and "min_val r' = min_val r" and "mean r' = mean r"
    and "std r' = std r" and "percentile_25 r' = percentile_25 r"
    and "percentile_50 r' = percentile_50 r" and "percentile_75 r' = percentile_75 r"
  using assms
  by (auto simp: set_most_common_def iloc_def Let_def split: if_splits sum.splits)


lemma set_numeric_Inr:
  assumes "set_numeric feature ft r = Inr r'"
  shows "ft \<noteq> ''num'' \<Longrightarrow> r' = r"
    and "ft = ''num'' \<Longrightarrow> \<exists>mx mn. series_max feature = Inr mx \<and> series_min feature = Inr mn
           \<and> r' = r\<lparr>max_val := Some mx, min_val := Some mn,
                  std := (if isnan (describe_std feature) then None
                          else Some (np_round_cell (describe_std feature))),
                  mean := Some (np_round_cell (describe_mean feature)),
                  percentile_25 := Some (np_round_cell (describe_percentile (1 / 4) feature)),
                  percentile_50 := Some (np_round_cell (describe_percentile (1 / 2) feature)),
                  percentile_75 := Some (np_round_cell (describe_percentile (3 / 4) feature))\<rparr>"
  using assms
  by (auto simp: set_numeric_def Let_def split: if_splits sum.splits)

lemma set_datetime_Inr:
  assumes "set_datetime to_str feature ft r = Inr r'"
  shows "ft \<noteq> ''datetime'' \<Longrightarrow> r' = r"
    and "ft = ''datetime'' \<Longrightarrow> \<exists>mx mn. series_max feature = Inr mx \<and> series_min feature = Inr mn
           \<and> r' = r\<lparr>max_val := Some (Str (to_str mx)), min_val := Some (Str (to_str mn))\<rparr>"
  using assms
  by (auto simp: set_datetime_def split: if_splits sum.splits)

lemma get_features_stats_steps:
  assumes "get_features_stats to_str feature ft = Inr r" and "feature \<noteq> []"
  obtains r0 r1 where
    "set_infinite feature ft
        (new_stats ft\<lparr>missing_count := Some (length (filter isnull feature)),
                      count := describe_count feature\<rparr>) = Inr r0"
    and "r1 = r0\<lparr>missing_fraction :=
                 Some (np_round (real (length (filter isnull feature)) / real (length feature)))\<rparr>"
    and "describe_count feature = 0 \<Longrightarrow> r = r1"
    and "0 < describe_count feature \<Longrightarrow>
           \<exists>r2 r3. set_most_common to_str feature ft r1 = Inr r2
                 \<and> set_numeric feature ft r2 = Inr r3
                 \<and> set_datetime to_str feature ft r3 = Inr r"
proof -
  let ?b = "new_stats ft\<lparr>missing_count := Some (length (filter isnull feature)),
                      count := describe_count feature\<rparr>"
  from assms obtain r0 where r0: "set_infinite feature ft ?b = Inr r0"
    by (auto simp: get_features_stats_def Let_def split: sum.splits)
  have c0: "count r0 = describe_count feature" and m0: "missing_count r0 = Some (length (filter isnull feature))"
    using set_infinite_Inr(1) [OF r0] by (simp_all split: if_splits)
  let ?r1 = "r0\<lparr>missing_fraction :=
                 Some (np_round (real (length (filter isnull feature)) / real (length feature)))\<rparr>"
  have rest: "(if 0 < describe_count feature then
                (case set_most_common to_str feature ft ?r1 of Inl e \<Rightarrow> Inl e | Inr result \<Rightarrow>
                 case set_numeric feature ft result of Inl e \<Rightarrow> Inl e | Inr result \<Rightarrow>
                   set_datetime to_str feature ft result)
              else Inr ?r1) = Inr r"
    using assms r0 c0 m0 by (simp add: get_features_stats_def Let_def)
  show thesis
  proof (rule that [of r0 ?r1])
    show "set_infinite feature ft ?b = Inr r0" by (rule r0)
    show "?r1 = ?r1" ..
    show "describe_count feature = 0 \<Longrightarrow> r = ?r1" using rest by simp
    show "0 < describe_count feature \<Longrightarrow>
           \<exists>r2 r3. set_most_common to_str feature ft ?r1 = Inr r2
                 \<and> set_numeric feature ft r2 = Inr r3
                 \<and> set_datetime to_str feature ft r3 = Inr r"
      using rest by (auto split: sum.splits)
  qed
qed


lemma stats_common_fields:
  assumes "get_features_stats to_str feature ft = Inr r" and "feature \<noteq> []"
  shows "feature_type r = ft"
    and "count r = describe_count feature"
    and "missing_count r = Some (length (filter isnull feature))"
    and "missing_fraction r =
           Some (np_round (real (length (filter isnull feature)) / real (length feature)))"
    and "infinite_count r = (if ft = ''num'' then Some (length (filter isinf feature)) else None)"
    and "infinite_fraction r = (if ft = ''num''
           then Some (np_round (real (length (filter isinf feature)) / real (length feature)))
           else None)"
    and "new_in_current_values_count r = None"
    and "unused_in_current_values_count r = None"
    and "ft = ''num'' \<Longrightarrow> list_all is_float feature"
proof -
  obtain r0 r1 where
    r0: "set_infinite feature ft
        (new_stats ft\<lparr>missing_count := Some (length (filter isnull feature)),
                      count := describe_count feature\<rparr>) = Inr r0"
    and r1: "r1 = r0\<lparr>missing_fraction :=
                 Some (np_round (real (length (filter isnull feature)) / real (length feature)))\<rparr>"
    and z: "describe_count feature = 0 \<Longrightarrow> r = r1"
    and p: "0 < describe_count feature \<Longrightarrow>
           \<exists>r2 r3. set_most_common to_str feature ft r1 = Inr r2
                 \<and> set_numeric feature ft r2 = Inr r3
                 \<and> set_datetime to_str feature ft r3 = Inr r"
    using get_features_stats_steps [OF assms, of thesis] by blast
  note i = set_infinite_Inr [OF r0]
  have f1: "feature_type r1 = ft \<and> count r1 = describe_count feature
      \<and> missing_count r1 = Some (length (filter isnull feature))
      \<and> missing_fraction r1 =
           Some (np_round (real (length (filter isnull feature)) / real (length feature)))
      \<and> infinite_count r1 = (if ft = ''num'' then Some (length (filter isinf feature)) else None)
      \<and> infinite_fraction r1 = (if ft = ''num''
           then Some (np_round (real (length (filter isinf feature)) / real (length feature)))
           else None)
      \<and> new_in_current_values_count r1 = None \<and> unused_in_current_values_count r1 = None"
    unfolding r1 i(1) by (simp add: new_stats_def)
  have "feature_type r = ft \<and> count r = describe_count feature
      \<and> missing_count r = Some (length (filter isnull feature))
      \<and> missing_fraction r =
           Some (np_round (real (length (filter isnull feature)) / real (length feature)))
      \<and> infinite_count r = (if ft = ''num'' then Some (length (filter isinf feature)) else None)
      \<and> infinite_fraction r = (if ft = ''num''
           then Some (np_round (real (length (filter isinf feature)) / real (length feature)))
           else None)
      \<and> new_in_current_values_count r = None \<and> unused_in_current_values_count r = None"
  proof (cases "describe_count feature = 0")
    case True
    with z f1 show ?thesis by simp
  next
    case False
    with p obtain r2 r3 where r2: "set_most_common to_str feature ft r1 = Inr r2"
      and r3: "set_numeric feature ft r2 = Inr r3"
      and r: "set_datetime to_str feature ft r3 = Inr r" by auto
    note m = set_most_common_Inr [OF r2]
    have f2: "feature_type r2 = ft \<and> count r2 = describe_count feature
      \<and> missing_count r2 = Some (length (filter isnull feature))
      \<and> missing_fraction r2 =
           Some (np_round (real (length (filter isnull feature)) / real (length feature)))
      \<and> infinite_count r2 = (if ft = ''num'' then Some (length (filter isinf feature)) else None)
      \<and> infinite_fraction r2 = (if ft = ''num''
           then Some (np_round (real (length (filter isinf feature)) / real (length feature)))
           else None)
      \<and> new_in_current_values_count r2 = None \<and> unused_in_current_values_count r2 = None"
      using f1 m by simp
    have f3: "feature_type r3 = feature_type r2 \<and> count r3 = count r2
      \<and> missing_count r3 = missing_count r2 \<and> missing_fraction r3 = missing_fraction r2
      \<and> infinite_count r3 = infinite_count r2 \<and> infinite_fraction r3 = infinite_fraction r2
      \<and> new_in_current_values_count r3 = new_in_current_values_count r2
      \<and> unused_in_current_values_count r3 = unused_in_current_values_count r2"
      using set_numeric_Inr [OF r3] by (cases "ft = ''num''") auto
    have f4: "feature_type r = feature_type r3 \<and> count r = count r3
      \<and> missing_count r = missing_count r3 \<and> missing_fraction r = missing_fraction r3
      \<and> infinite_count r = infinite_count r3 \<and> infinite_fraction r = infinite_fraction r3
      \<and> new_in_current_values_count r = new_in_current_values_count r3
      \<and> unused_in_current_values_count r = unused_in_current_values_count r3"
      using set_datetime_Inr [OF r] by (cases "ft = ''datetime''") auto
    from f2 f3 f4 show ?thesis by simp
  qed
  then show "feature_type r = ft"
    and "count r = describe_count feature"
    and "missing_count r = Some (length (filter isnull feature))"
    and "missing_fraction r =
           Some (np_round (real (length (filter isnull feature)) / real (length feature)))"
    and "infinite_count r = (if ft = ''num'' then Some (length (filter isinf feature)) else None)"
    and "infinite_fraction r = (if ft = ''num''
           then Some (np_round (real (length (filter isinf feature)) / real (length feature)))
           else None)"
    and "new_in_current_values_count r = None"
    and "unused_in_current_values_count r = None"
    by simp_all
  show "ft = ''num'' \<Longrightarrow> list_all is_float feature" using i(2) .
qed






section \<open>The frequency table\<close>

lemma set_unique_values: "set (unique_values xs) = set xs"
  by (induction xs rule: unique_values.induct) auto

lemma distinct_unique_values: "distinct (unique_values xs)"
  by (induction xs rule: unique_values.induct) (auto simp: set_unique_values)







lemma set_value_counts:
  "set (value_counts feature) = (\<lambda>k. (k, count_list feature k)) ` set feature"
  by (simp add: value_counts_def set_unique_values)

lemma keys_value_counts:
  "set (map fst (value_counts feature)) = set feature"
  "distinct (map fst (value_counts feature))"
proof -
  show "set (map fst (value_counts feature)) = set feature"
    by (simp add: set_value_counts image_image)
  have "inj_on fst (set (value_counts feature))"
    unfolding set_value_counts by (rule inj_onI) auto
  moreover have "distinct (value_counts feature)"
    unfolding value_counts_def
    by (simp add: distinct_map distinct_unique_values inj_on_def)
  ultimately show "distinct (map fst (value_counts feature))"
    by (simp add: distinct_map)
qed

lemma length_value_counts: "length (value_counts feature) = length (unique_values feature)"
  by (simp add: value_counts_def)



lemma describe_count_pos_iff: "0 < describe_count feature \<longleftrightarrow> (\<exists>c \<in> set feature. \<not> isnull c)"
  by (auto simp: describe_count_def notnull_values_def filter_empty_conv)





section \<open>Worked columns\<close>

lemmas stats_eval = get_features_stats_def new_stats_def set_infinite_def describe_count_def
  notnull_values_def isnull_def isinf_def set_most_common_def set_numeric_def set_datetime_def
  iloc_def value_counts_def nunique_def series_max_def series_min_def describe_std_def
  describe_mean_def describe_percentile_def float_sort_def fsum_def isnan_def np_round_def
  rint_def Let_def fsub_def

lemma numeric_column_example:
  "get_features_stats to_str [Num 1, Num 2, Num 3, NaN, PosInf] ''num'' = Inr
     \<lparr> feature_type = ''num'', count = 4, infinite_count = Some 1, infinite_fraction = Some (1 / 5),
       missing_count = Some 1, missing_fraction = Some (1 / 5), unique = Some 4,
       unique_fraction = Some (4 / 5), percentile_25 = Some (Num (7 / 4)),
       percentile_50 = Some (Num (5 / 2)), percentile_75 = Some PosInf, max_val = Some PosInf,
       min_val = Some (Num 1), mean = Some PosInf, most_common_value = Some (Num 1),
       most_common_value_fraction = Some (1 / 5), std = None, most_common_not_null_value = None,
       most_common_not_null_value_fraction = None,
       new_in_current_values_count = None, unused_in_current_values_count = None \<rparr>"
  by (simp add: stats_eval)



section \<open>Numeric columns\<close>

lemma cell_le_float:
  assumes "float_key a = Some ka" and "float_key b = Some kb"
  shows "cell_le a b = Some (fst ka < fst kb \<or> (fst ka = fst kb \<and> snd ka \<le> snd kb))"
  using assms by (cases a; cases b) auto

lemma float_key_notnull: "is_float c \<Longrightarrow> \<not> isnull c \<Longrightarrow> float_key c \<noteq> None"
  by (cases c) (auto simp: isnull_def)

lemma cell_le_float_trans:
  assumes "float_key a \<noteq> None" "float_key b \<noteq> None" "float_key c \<noteq> None"
    and "cell_le a b = Some True" and "cell_le b c = Some True"
  shows "cell_le a c = Some True"
proof -
  from assms(1,2,3) obtain ka kb kc where k: "float_key a = Some ka" "float_key b = Some kb"
    "float_key c = Some kc" by auto
  from assms(4,5) show ?thesis
    unfolding cell_le_float [OF k(1,2)] cell_le_float [OF k(2,3)] cell_le_float [OF k(1,3)]
    by auto
qed

lemma cell_le_float_total:
  assumes "float_key a \<noteq> None" "float_key b \<noteq> None"
  shows "cell_le a b = Some True \<or> (cell_le a b = Some False \<and> cell_le b a = Some True)"
proof -
  from assms obtain ka kb where k: "float_key a = Some ka" "float_key b = Some kb" by auto
  show ?thesis unfolding cell_le_float [OF k(1,2)] cell_le_float [OF k(2,1)] by auto
qed

lemma cell_le_float_refl: "float_key a \<noteq> None \<Longrightarrow> cell_le a a = Some True"
  using cell_le_float [of a _ a] by auto

lemma max_from_float:
  assumes "float_key m \<noteq> None" and "\<forall>x \<in> set xs. float_key x \<noteq> None"
  shows "\<exists>mx. max_from m xs = Inr mx \<and> mx \<in> set (m # xs)
           \<and> (\<forall>v \<in> set (m # xs). cell_le v mx = Some True)"
  using assms
proof (induction xs arbitrary: m)
  case Nil
  then show ?case by (simp add: cell_le_float_refl)
next
  case (Cons x xs)
  then have kx: "float_key x \<noteq> None" and kxs: "\<forall>x \<in> set xs. float_key x \<noteq> None" by simp_all
  from cell_le_float_total [OF Cons.prems(1) kx] show ?case
  proof
    assume le: "cell_le m x = Some True"
    from Cons.IH [OF kx kxs] obtain mx where mx: "max_from x xs = Inr mx" "mx \<in> set (x # xs)"
      "\<forall>v \<in> set (x # xs). cell_le v mx = Some True" by blast
    from mx(2) kx kxs have kmx: "float_key mx \<noteq> None" by auto
    from mx(3) have "cell_le x mx = Some True" by simp
    with le have "cell_le m mx = Some True"
      by (rule cell_le_float_trans [OF Cons.prems(1) kx kmx])
    with mx le show ?thesis by auto
  next
    assume gt: "cell_le m x = Some False \<and> cell_le x m = Some True"
    from Cons.IH [OF Cons.prems(1) kxs] obtain mx where mx: "max_from m xs = Inr mx"
      "mx \<in> set (m # xs)" "\<forall>v \<in> set (m # xs). cell_le v mx = Some True" by blast
    from mx(2) Cons.prems(1) kxs have kmx: "float_key mx \<noteq> None" by auto
    from mx(3) have "cell_le m mx = Some True" by simp
    with gt have "cell_le x mx = Some True"
      using cell_le_float_trans [OF kx Cons.prems(1) kmx] by simp
    with mx gt show ?thesis by auto
  qed
qed

lemma min_from_float:
  assumes "float_key m \<noteq> None" and "\<forall>x \<in> set xs. float_key x \<noteq> None"
  shows "\<exists>mn. min_from m xs = Inr mn \<and> mn \<in> set (m # xs)
           \<and> (\<forall>v \<in> set (m # xs). cell_le mn v = Some True)"
  using assms
proof (induction xs arbitrary: m)
  case Nil
  then show ?case by (simp add: cell_le_float_refl)
next
  case (Cons x xs)
  then have kx: "float_key x \<noteq> None" and kxs: "\<forall>x \<in> set xs. float_key x \<noteq> None" by simp_all
  from cell_le_float_total [OF kx Cons.prems(1)] show ?case
  proof
    assume le: "cell_le x m = Some True"
    from Cons.IH [OF kx kxs] obtain mn where mn: "min_from x xs = Inr mn" "mn \<in> set (x # xs)"
      "\<forall>v \<in> set (x # xs). cell_le mn v = Some True" by blast
    from mn(2) kx kxs have kmn: "float_key mn \<noteq> None" by auto
    from mn(3) have "cell_le mn x = Some True" by simp
    then have "cell_le mn m = Some True"
      using le by (rule cell_le_float_trans [OF kmn kx Cons.prems(1)])
    with mn le show ?thesis by auto
  next
    assume gt: "cell_le x m = Some False \<and> cell_le m x = Some True"
    from Cons.IH [OF Cons.prems(1) kxs] obtain mn where mn: "min_from m xs = Inr mn"
      "mn \<in> set (m # xs)" "\<forall>v \<in> set (m # xs). cell_le mn v = Some True" by blast
    from mn(2) Cons.prems(1) kxs have kmn: "float_key mn \<noteq> None" by auto
    from mn(3) have "cell_le mn m = Some True" by simp
    with gt have "cell_le mn x = Some True"
      using cell_le_float_trans [OF kmn Cons.prems(1) kx] by simp
    with mn gt show ?thesis by auto
  qed
qed

lemma series_extrema_float:
  assumes "list_all is_float feature" and "notnull_values feature \<noteq> []"
  shows "\<exists>mx mn. series_max feature = Inr mx \<and> series_min feature = Inr mn
       \<and> mx \<in> set (notnull_values feature) \<and> mn \<in> set (notnull_values feature)
       \<and> (\<forall>v \<in> set (notnull_values feature). cell_le v mx = Some True \<and> cell_le mn v = Some True)"
proof -
  from assms(2) obtain v vs where vs: "notnull_values feature = v # vs" by (cases "notnull_values feature") auto
  have "\<forall>x \<in> set (notnull_values feature). float_key x \<noteq> None"
    using assms(1) by (auto simp: notnull_values_def list_all_iff float_key_notnull)
  with vs have k: "float_key v \<noteq> None" "\<forall>x \<in> set vs. float_key x \<noteq> None" by simp_all
  from max_from_float [OF k] min_from_float [OF k] show ?thesis
    unfolding series_max_def series_min_def vs by (simp del: max_from.simps min_from.simps) blast
qed











section \<open>The drift counts\<close>


lemma dict_get_Inr: "dict_get d k = Inr v \<longleftrightarrow> map_of d k = Some v"
  by (simp add: dict_get_def split: option.split)















lemmas calc_eval = calculate_def calculate_stats_def dict_get_def truthy_def both_have_nans_def
  hasnans_def set_difference_def py_contains_def dict_keys_def one_cat_feature_def



section \<open>The statistics of a well-typed column never fail\<close>

text \<open>
  With at least one non-missing value the frequency table has a first entry, and a second
  one when the first is a missing marker, so neither positional access raises. A column of
  floating point cells has extrema. Hence the calculator returns a record for every
  categorical column and for every numeric column of floating point cells.
\<close>

lemma value_counts_second_entry:
  assumes "\<exists>c \<in> set feature. \<not> isnull c" and "isnull (fst (value_counts feature ! 0))"
  shows "1 < length (value_counts feature)"
proof (rule ccontr)
  assume "\<not> 1 < length (value_counts feature)"
  then have l: "length (map fst (value_counts feature)) \<le> 1" by simp
  from assms(1) obtain c where c: "c \<in> set feature" "\<not> isnull c" by blast
  from c(1) have "c \<in> set (map fst (value_counts feature))"
    by (simp only: keys_value_counts(1))
  then obtain i where i: "i < length (map fst (value_counts feature))"
    "map fst (value_counts feature) ! i = c" by (auto simp: in_set_conv_nth)
  with l have "i = 0" by simp
  with i have "fst (value_counts feature ! 0) = c" by simp
  with assms(2) c(2) show False by simp
qed

lemma set_most_common_total:
  assumes "\<exists>c \<in> set feature. \<not> isnull c"
  shows "\<exists>r'. set_most_common to_str feature ft r = Inr r'"
proof -
  from assms have "set (map fst (value_counts feature)) \<noteq> {}"
    by (simp only: keys_value_counts(1)) auto
  then have l0: "0 < length (value_counts feature)" by auto
  show ?thesis
  proof (cases "ft \<noteq> ''datetime'' \<and> isnull (fst (value_counts feature ! 0))")
    case True
    with value_counts_second_entry [OF assms] have "1 < length (value_counts feature)" by simp
    with l0 True show ?thesis
      by (simp add: set_most_common_def iloc_def Let_def)
  next
    case False
    with l0 show ?thesis
      by (auto simp: set_most_common_def iloc_def Let_def isnull_def)
  qed
qed

lemma get_features_stats_total:
  assumes "ft \<noteq> ''datetime''" and "ft = ''num'' \<longrightarrow> list_all is_float feature"
  shows "\<exists>r. get_features_stats to_str feature ft = Inr r"
proof (cases "feature = []")
  case True
  then show ?thesis by (simp add: get_features_stats_def)
next
  case ne: False
  let ?b = "new_stats ft\<lparr>missing_count := Some (length (filter isnull feature)),
                      count := describe_count feature\<rparr>"
  have "\<exists>r0. set_infinite feature ft ?b = Inr r0"
    using assms(2) by (cases "ft = ''num''") (simp_all add: set_infinite_def Let_def)
  then obtain r0 where r0: "set_infinite feature ft ?b = Inr r0" by blast
  have c0: "count r0 = describe_count feature"
    and m0: "missing_count r0 = Some (length (filter isnull feature))"
    using set_infinite_Inr(1) [OF r0] by (simp_all split: if_splits)
  let ?r1 = "r0\<lparr>missing_fraction :=
                 Some (np_round (real (length (filter isnull feature)) / real (length feature)))\<rparr>"
  show ?thesis
  proof (cases "0 < describe_count feature")
    case False
    with ne r0 c0 m0 show ?thesis by (simp add: get_features_stats_def Let_def)
  next
    case True
    then have nn: "\<exists>c \<in> set feature. \<not> isnull c" by (simp add: describe_count_pos_iff)
    from set_most_common_total [OF nn] obtain r2 where
      r2: "set_most_common to_str feature ft ?r1 = Inr r2" by blast
    have "\<exists>r3. set_numeric feature ft r2 = Inr r3"
    proof (cases "ft = ''num''")
      case False
      then show ?thesis by (simp add: set_numeric_def)
    next
      case num: True
      with assms(2) have fl: "list_all is_float feature" by simp
      from True have "notnull_values feature \<noteq> []" by (simp add: describe_count_def)
      from series_extrema_float [OF fl this] obtain mx mn where
        "series_max feature = Inr mx" "series_min feature = Inr mn" by blast
      with num show ?thesis by (simp add: set_numeric_def Let_def)
    qed
    then obtain r3 where r3: "set_numeric feature ft r2 = Inr r3" by blast
    have r4: "set_datetime to_str feature ft r3 = Inr r3"
      using assms(1) by (simp add: set_datetime_def)
    from ne r0 c0 m0 True r2 r3 r4 show ?thesis
      by (simp add: get_features_stats_def Let_def)
  qed
qed


section \<open>Properties of lookup and flattening\<close>

text \<open>
  Claim C8. Looking a record up by name tries the buckets in the fixed order target,
  datetime, categorical, numeric and returns the record of the first bucket that holds the
  name; when no bucket holds it, the lookup fails with \<open>KeyError\<close> of that name.
\<close>

theorem getitem_priority:
  "getitem s item =
     (case bucket_lookup (target_stats s) item of Some r \<Rightarrow> Inr r | None \<Rightarrow>
      (case bucket_lookup (datetime_features_stats s) item of Some r \<Rightarrow> Inr r | None \<Rightarrow>
       (case bucket_lookup (cat_features_stats s) item of Some r \<Rightarrow> Inr r | None \<Rightarrow>
        (case bucket_lookup (num_features_stats s) item of Some r \<Rightarrow> Inr r | None \<Rightarrow>
           Inl (KeyError item)))))"
  by (simp add: getitem_def buckets_def first_with_Cons split: option.split)

text \<open>
  Claim C10. With dictionaries whose keys are distinct, \<open>get_all_features\<close> maps a name
  to the record of the last bucket, in the order target, datetime, categorical, numeric, that
  holds it. When all four buckets hold the name, the flattened mapping gives the numeric
  bucket's record while the lookup by name gives the target bucket's record. When exactly
  one bucket holds the name, both give the same record.
\<close>

theorem get_all_features_reverse_priority:
  assumes "bucket_ok (target_stats s)" and "bucket_ok (datetime_features_stats s)"
    and "bucket_ok (cat_features_stats s)" and "bucket_ok (num_features_stats s)"
  shows "map_of (get_all_features s) item =
       (case bucket_lookup (num_features_stats s) item of Some r \<Rightarrow> Some r | None \<Rightarrow>
        (case bucket_lookup (cat_features_stats s) item of Some r \<Rightarrow> Some r | None \<Rightarrow>
         (case bucket_lookup (datetime_features_stats s) item of Some r \<Rightarrow> Some r | None \<Rightarrow>
           bucket_lookup (target_stats s) item)))
    \<and> ((\<forall>b \<in> set (buckets s). bucket_lookup b item \<noteq> None) \<longrightarrow>
          map_of (get_all_features s) item = bucket_lookup (num_features_stats s) item
        \<and> (\<exists>r. bucket_lookup (target_stats s) item = Some r \<and> getitem s item = Inr r))
    \<and> (length (filter (\<lambda>b. bucket_lookup b item \<noteq> None) (buckets s)) = 1 \<longrightarrow>
          (\<exists>r. map_of (get_all_features s) item = Some r \<and> getitem s item = Inr r))"
proof -
  note flat = get_all_features_lookup [OF assms, of item]
  have look: "getitem s item =
     (case bucket_lookup (target_stats s) item of Some r \<Rightarrow> Inr r | None \<Rightarrow>
      (case bucket_lookup (datetime_features_stats s) item of Some r \<Rightarrow> Inr r | None \<Rightarrow>
       (case bucket_lookup (cat_features_stats s) item of Some r \<Rightarrow> Inr r | None \<Rightarrow>
        (case bucket_lookup (num_features_stats s) item of Some r \<Rightarrow> Inr r | None \<Rightarrow>
           Inl (KeyError item)))))"
    by (simp add: getitem_def buckets_def first_with_Cons split: option.split)
  have all: "(\<forall>b \<in> set (buckets s). bucket_lookup b item \<noteq> None) \<longrightarrow>
          map_of (get_all_features s) item = bucket_lookup (num_features_stats s) item
        \<and> (\<exists>r. bucket_lookup (target_stats s) item = Some r \<and> getitem s item = Inr r)"
    unfolding flat look by (auto simp: buckets_def)
  have one: "length (filter (\<lambda>b. bucket_lookup b item \<noteq> None) (buckets s)) = 1 \<longrightarrow>
          (\<exists>r. map_of (get_all_features s) item = Some r \<and> getitem s item = Inr r)"
    unfolding flat look by (auto simp: buckets_def split: option.splits if_splits)
  from flat all one show ?thesis by blast
qed

theorem get_all_features_reverse_priority_witness:
  "map_of (get_all_features
       \<lparr> num_features_stats = Some [(''f'', new_stats ''num'')],
         cat_features_stats = Some [(''f'', new_stats ''cat'')],
         datetime_features_stats = Some [(''f'', new_stats ''datetime'')],
         target_stats = Some [(''f'', new_stats ''cat''\<lparr>count := 7\<rparr>)] \<rparr>) ''f''
     = Some (new_stats ''num'')
   \<and> getitem
       \<lparr> num_features_stats = Some [(''f'', new_stats ''num'')],
         cat_features_stats = Some [(''f'', new_stats ''cat'')],
         datetime_features_stats = Some [(''f'', new_stats ''datetime'')],
         target_stats = Some [(''f'', new_stats ''cat''\<lparr>count := 7\<rparr>)] \<rparr> ''f''
     = Inr (new_stats ''cat''\<lparr>count := 7\<rparr>)
   \<and> (\<exists>r. map_of (get_all_features
       \<lparr> num_features_stats = Some [(''g'', new_stats ''num'')],
         cat_features_stats = Some [(''f'', new_stats ''cat'')],
         datetime_features_stats = Some [],
         target_stats = None \<rparr>) ''f'' = Some r
     \<and> getitem
       \<lparr> num_features_stats = Some [(''g'', new_stats ''num'')],
         cat_features_stats = Some [(''f'', new_stats ''cat'')],
         datetime_features_stats = Some [],
         target_stats = None \<rparr> ''f'' = Inr r)"
  using get_all_features_reverse_priority
      [of "\<lparr> num_features_stats = Some [(''f'', new_stats ''num'')],
         cat_features_stats = Some [(''f'', new_stats ''cat'')],
         datetime_features_stats = Some [(''f'', new_stats ''datetime'')],
         target_stats = Some [(''f'', new_stats ''cat''\<lparr>count := 7\<rparr>)] \<rparr>" "''f''"]
    get_all_features_reverse_priority
      [of "\<lparr> num_features_stats = Some [(''g'', new_stats ''num'')],
         cat_features_stats = Some [(''f'', new_stats ''cat'')],
         datetime_features_stats = Some [],
         target_stats = None \<rparr>" "''f''"]
  by (auto simp: bucket_ok_def bucket_lookup_def buckets_def)

section \<open>Properties of the statistics of one column\<close>

text \<open>
  Claim C4. For every feature type, a column of length zero gives the record that has only
  its feature type set: the count is 0 and every other field is unset. The function returns
  at once, before any division.
\<close>

theorem stats_of_empty_column:
  "get_features_stats to_str [] ft = Inr
     \<lparr> feature_type = ft, count = 0, infinite_count = None, infinite_fraction = None,
       missing_count = None, missing_fraction = None, unique = None, unique_fraction = None,
       percentile_25 = None, percentile_50 = None, percentile_75 = None, max_val = None,
       min_val = None, mean = None, most_common_value = None, most_common_value_fraction = None,
       std = None, most_common_not_null_value = None, most_common_not_null_value_fraction = None,
       new_in_current_values_count = None, unused_in_current_values_count = None \<rparr>"
  by (simp add: get_features_stats_def new_stats_def)

text \<open>
  Claim C3. For a column with at least one row, of any feature type, the record that the
  calculator returns has \<open>missing_count\<close> the number of missing markers, \<open>count\<close> the
  number of non-missing values, and the two add up to the length of the column.
\<close>

theorem count_plus_missing_is_total:
  assumes "get_features_stats to_str feature ft = Inr r" and "feature \<noteq> []"
  shows "missing_count r = Some (length (filter isnull feature))
       \<and> count r = length (filter (\<lambda>c. \<not> isnull c) feature)
       \<and> count r + length (filter isnull feature) = length feature"
proof -
  note f = stats_common_fields [OF assms]
  have "length (filter isnull feature) + length (filter (\<lambda>c. \<not> isnull c) feature) = length feature"
    by (rule sum_length_filter_compl)
  with f(2,3) show ?thesis by (simp add: describe_count_def notnull_values_def)
qed


theorem count_plus_missing_is_total_witness:
  "\<exists>r. get_features_stats (\<lambda>c. []) [Num 1, Num 2, Num 3, NaN, PosInf] ''num'' = Inr r
     \<and> missing_count r = Some 1 \<and> count r = 4 \<and> count r + 1 = 5"
  using count_plus_missing_is_total [OF numeric_column_example [of "\<lambda>c. []"]]
    numeric_column_example [of "\<lambda>c. []"]
  by (simp add: isnull_def)















section \<open>Properties of the drift counts\<close>





text \<open>
  Claim C2 says that the drift counts are never negative and are 0 when the two columns
  have the same distinct values. The code does not guarantee it: with the reference column
  and the current column both \<open>["a", None]\<close>, the two sets are equal, both differences are
  empty, both columns have a missing value, and the correction leaves -1 in both fields.
\<close>

theorem negative_drift_counts:
  "\<not> isl (calculate plain_text [(''f'', [Str ''a'', NoneV])] (Some [(''f'', [Str ''a'', NoneV])])
            one_cat_feature None)
   \<and> map_option new_in_current_values_count
        (bucket_lookup (cat_features_stats (reference_features_stats (projr
           (calculate plain_text [(''f'', [Str ''a'', NoneV])] (Some [(''f'', [Str ''a'', NoneV])])
              one_cat_feature None)))) ''f'') = Some (Some (- 1))
   \<and> map_option unused_in_current_values_count
        (bucket_lookup (cat_features_stats (reference_features_stats (projr
           (calculate plain_text [(''f'', [Str ''a'', NoneV])] (Some [(''f'', [Str ''a'', NoneV])])
              one_cat_feature None)))) ''f'') = Some (Some (- 1))"
  by (simp add: calc_eval stats_eval bucket_lookup_def)

end
